theory Spec2Isabelle
  imports Complex_Main "HOL-Library.Word"
begin

section \<open>Numbers and strings of the front end\<close>

text \<open>
  A TypeScript \<open>number\<close> is read as a real: the functions below only add, subtract,
  multiply by two and compare, and rounding of doubles is not modelled. The one place
  where a double can leave the reals is a division by zero, which yields \<open>Infinity\<close>,
  \<open>-Infinity\<close> or \<open>NaN\<close>; those three are the value \<open>NonFinite\<close>.
\<close>

type_synonym number = real

datatype jsnum = Finite real | NonFinite

fun js_divide :: "real \<Rightarrow> real \<Rightarrow> jsnum" where
  "js_divide p q = (if q = 0 then NonFinite else Finite (p / q))"

fun js_apply :: "(real \<Rightarrow> real) \<Rightarrow> jsnum \<Rightarrow> jsnum" where
  "js_apply f (Finite r) = Finite (f r)"
| "js_apply f NonFinite = NonFinite"

fun in_unit_range :: "jsnum \<Rightarrow> bool" where
  "in_unit_range (Finite r) = (- 1 \<le> r \<and> r \<le> 1)"
| "in_unit_range NonFinite = False"

text \<open>
  A JavaScript string is a sequence of UTF-16 code units, and \<open>length\<close> counts them.
  \<open>String.prototype.trim\<close> removes the code units of the WhiteSpace and LineTerminator
  productions from both ends.
\<close>

type_synonym jsstring = "16 word list"

definition isWhiteSpace :: "16 word \<Rightarrow> bool" where
  "isWhiteSpace c =
     (c = 0x0009 \<or> c = 0x000A \<or> c = 0x000B \<or> c = 0x000C \<or> c = 0x000D \<or> c = 0x0020 \<or>
      c = 0x00A0 \<or> c = 0x1680 \<or> (0x2000 \<le> c \<and> c \<le> 0x200A) \<or> c = 0x2028 \<or>
      c = 0x2029 \<or> c = 0x202F \<or> c = 0x205F \<or> c = 0x3000 \<or> c = 0xFEFF)"

definition trim :: "jsstring \<Rightarrow> jsstring" where
  "trim s = rev (dropWhile isWhiteSpace (rev (dropWhile isWhiteSpace s)))"


section \<open>The mood quadrant (neuro-brief page)\<close>

text \<open>
  \<open>getMoodLabel\<close> of \<open>MoodQuadrant\<close>, with the component's \<open>valence\<close> and \<open>arousal\<close>
  props as arguments. The four tests are in the order of the source.
\<close>

definition getMoodLabel :: "number \<Rightarrow> number \<Rightarrow> string" where
  "getMoodLabel valence arousal =
     (if valence > 0.15 \<and> arousal > 0.15 then ''Excited / Joyful''
      else if valence > 0.15 \<and> arousal < - 0.15 then ''Calm / Content''
      else if valence < - 0.15 \<and> arousal > 0.15 then ''Tense / Anxious''
      else if valence < - 0.15 \<and> arousal < - 0.15 then ''Melancholic / Sad''
      else ''Neutral / Balanced'')"

text \<open>
  The label of the quadrant of the plane that contains a point, by the signs of the two
  coordinates alone. This definition follows the wording of the specification, not the
  source, and is what \<open>getMoodLabel\<close> is compared with.
\<close>

definition quadrantLabel :: "number \<Rightarrow> number \<Rightarrow> string" where
  "quadrantLabel valence arousal =
     (if 0 < valence then (if 0 < arousal then ''Excited / Joyful'' else ''Calm / Content'')
      else (if 0 < arousal then ''Tense / Anxious'' else ''Melancholic / Sad''))"

text \<open>
  \<open>handleClick\<close> of \<open>MoodQuadrant\<close>. The event contributes \<open>clientX\<close> and \<open>clientY\<close>,
  \<open>getBoundingClientRect\<close> the rectangle of the clicked element. The result is the pair
  handed to \<open>onPositionChange\<close>; the handler has no other exit.
\<close>

record MouseEvent =
  clientX :: number
  clientY :: number

record DOMRect =
  left :: number
  top :: number
  width :: number
  height :: number

definition handleClick :: "MouseEvent \<Rightarrow> DOMRect \<Rightarrow> jsnum \<times> jsnum" where
  "handleClick e rect =
     (let x = js_divide (clientX e - left rect) (width rect);
          y = js_apply (\<lambda>q. 1 - q) (js_divide (clientY e - top rect) (height rect));
          newValence = js_apply (\<lambda>x. x * 2 - 1) x;
          newArousal = js_apply (\<lambda>y. y * 2 - 1) y
      in (newValence, newArousal))"


section \<open>The user-profile store\<close>

text \<open>
  The data of the store. Several interfaces of the source share field names
  (\<open>timestamp\<close>, \<open>prompt\<close>, \<open>name\<close>); a record field is a constant of the theory, so the
  fields carry a prefix for their interface: \<open>cal_\<close> for \<open>CalibrationData\<close>, \<open>nb_\<close> for
  \<open>NeuroBriefData\<close>, \<open>ing_\<close> for \<open>Ingredient\<close>, \<open>f_\<close> for \<open>FormulaData\<close>.
  \<open>null\<close> is \<open>None\<close>.
\<close>

datatype SkinType = Dry | Normal | Oily

record CalibrationData =
  cal_ph :: number
  cal_skinType :: "SkinType option"
  cal_temperature :: number
  cal_timestamp :: "string option"

record NeuroBriefData =
  nb_prompt :: jsstring
  nb_valence :: number
  nb_arousal :: number
  nb_timestamp :: "string option"

record Ingredient =
  ing_name :: string
  ing_concentration :: number
  ing_sustainable :: bool

record Metrics =
  longevity :: number
  projection :: number
  uniqueness :: number
  sustainability :: number
  ifraCompliance :: number

record FormulaData =
  f_id :: "string option"
  f_name :: string
  f_description :: string
  topNotes :: "Ingredient list"
  middleNotes :: "Ingredient list"
  baseNotes :: "Ingredient list"
  metrics :: Metrics
  physioCorrections :: "string list"
  createdAt :: "string option"

text \<open>The data members of \<open>UserProfileState\<close>; its other members are the actions below.\<close>

record UserProfileState =
  calibration :: CalibrationData
  neuroBrief :: NeuroBriefData
  formula :: "FormulaData option"
  currentStep :: number
  isGenerating :: bool
  error :: "string option"

text \<open>
  \<open>Partial<CalibrationData>\<close> and \<open>Partial<NeuroBriefData>\<close>: every key may be absent
  (\<open>None\<close>) or present with a value of the field's type.
\<close>

record PartialCalibrationData =
  pc_ph :: "number option"
  pc_skinType :: "SkinType option option"
  pc_temperature :: "number option"
  pc_timestamp :: "string option option"

record PartialNeuroBriefData =
  pn_prompt :: "jsstring option"
  pn_valence :: "number option"
  pn_arousal :: "number option"
  pn_timestamp :: "string option option"

definition initialCalibration :: CalibrationData where
  "initialCalibration =
     \<lparr>cal_ph = 5.5, cal_skinType = None, cal_temperature = 36.5, cal_timestamp = None\<rparr>"

definition initialNeuroBrief :: NeuroBriefData where
  "initialNeuroBrief =
     \<lparr>nb_prompt = [], nb_valence = 0, nb_arousal = 0, nb_timestamp = None\<rparr>"

text \<open>The state the store is created with.\<close>

definition initialState :: UserProfileState where
  "initialState =
     \<lparr>calibration = initialCalibration, neuroBrief = initialNeuroBrief, formula = None,
      currentStep = 0, isGenerating = False, error = None\<rparr>"

text \<open>
  An object spread \<open>{...a, ...b}\<close> takes a key from \<open>b\<close> when \<open>b\<close> has it and from \<open>a\<close>
  otherwise.
\<close>

definition spread :: "'a \<Rightarrow> 'a option \<Rightarrow> 'a" where
  "spread previous given = (case given of None \<Rightarrow> previous | Some v \<Rightarrow> v)"

text \<open>
  The actions. \<open>set\<close> merges the object it is given into the state, so an action changes
  the members it names and no other. \<open>new Date().toISOString()\<close> is the argument \<open>now\<close>.
  In \<open>setCalibration\<close> and \<open>setNeuroBrief\<close> the \<open>timestamp\<close> key is written after both
  spreads, so it overrides a \<open>timestamp\<close> of the argument.
\<close>

definition setCalibration :: "PartialCalibrationData \<Rightarrow> string \<Rightarrow> UserProfileState \<Rightarrow> UserProfileState" where
  "setCalibration data now state =
     state\<lparr>calibration :=
       \<lparr>cal_ph = spread (cal_ph (calibration state)) (pc_ph data),
        cal_skinType = spread (cal_skinType (calibration state)) (pc_skinType data),
        cal_temperature = spread (cal_temperature (calibration state)) (pc_temperature data),
        cal_timestamp = Some now\<rparr>\<rparr>"

definition resetCalibration :: "UserProfileState \<Rightarrow> UserProfileState" where
  "resetCalibration state = state\<lparr>calibration := initialCalibration\<rparr>"

definition setNeuroBrief :: "PartialNeuroBriefData \<Rightarrow> string \<Rightarrow> UserProfileState \<Rightarrow> UserProfileState" where
  "setNeuroBrief data now state =
     state\<lparr>neuroBrief :=
       \<lparr>nb_prompt = spread (nb_prompt (neuroBrief state)) (pn_prompt data),
        nb_valence = spread (nb_valence (neuroBrief state)) (pn_valence data),
        nb_arousal = spread (nb_arousal (neuroBrief state)) (pn_arousal data),
        nb_timestamp = Some now\<rparr>\<rparr>"

definition resetNeuroBrief :: "UserProfileState \<Rightarrow> UserProfileState" where
  "resetNeuroBrief state = state\<lparr>neuroBrief := initialNeuroBrief\<rparr>"

definition setFormula :: "FormulaData \<Rightarrow> UserProfileState \<Rightarrow> UserProfileState" where
  "setFormula fd state = state\<lparr>formula := Some fd\<rparr>"

definition resetFormula :: "UserProfileState \<Rightarrow> UserProfileState" where
  "resetFormula state = state\<lparr>formula := None\<rparr>"

definition setCurrentStep :: "number \<Rightarrow> UserProfileState \<Rightarrow> UserProfileState" where
  "setCurrentStep step state = state\<lparr>currentStep := step\<rparr>"

definition setIsGenerating :: "bool \<Rightarrow> UserProfileState \<Rightarrow> UserProfileState" where
  "setIsGenerating v state = state\<lparr>isGenerating := v\<rparr>"

definition setError :: "string option \<Rightarrow> UserProfileState \<Rightarrow> UserProfileState" where
  "setError e state = state\<lparr>error := e\<rparr>"

definition resetAll :: "UserProfileState \<Rightarrow> UserProfileState" where
  "resetAll state =
     state\<lparr>calibration := initialCalibration,
           neuroBrief := initialNeuroBrief,
           formula := None,
           currentStep := 0,
           isGenerating := False,
           error := None\<rparr>"

definition isCalibrationComplete :: "UserProfileState \<Rightarrow> bool" where
  "isCalibrationComplete state =
     (cal_skinType (calibration state) \<noteq> None \<and> cal_timestamp (calibration state) \<noteq> None)"

definition isNeuroBriefComplete :: "UserProfileState \<Rightarrow> bool" where
  "isNeuroBriefComplete state =
     (length (nb_prompt (neuroBrief state)) \<ge> 10 \<and> nb_timestamp (neuroBrief state) \<noteq> None)"


section \<open>The browser as seen by the pages\<close>

text \<open>
  The two pages write one \<open>localStorage\<close> key each, as the JSON text of an object literal,
  and call \<open>router.push\<close>. The stored text is modelled as the object it serialises (a
  copy, which no later change of the page state reaches), the router by the list of
  the routes pushed so far. Fields carry a prefix: \<open>cd_\<close> for the object \<open>calibrationData\<close>
  of the calibration page, \<open>nd_\<close> for \<open>neuroBriefData\<close> of the neuro-brief page.
\<close>

record calibrationData =
  cd_ph :: number
  cd_skinType :: "string option"
  cd_temperature :: number
  cd_stressLevel :: number
  cd_heartRate :: number
  cd_lifestyleScenario :: string
  cd_timestamp :: string

record neuroBriefData =
  nd_prompt :: jsstring
  nd_valence :: jsnum
  nd_arousal :: jsnum
  nd_timestamp :: string

record Browser =
  sensora_calibration :: "calibrationData option"
  sensora_neuro_brief :: "neuroBriefData option"
  pushed :: "string list"


section \<open>The calibration page\<close>

text \<open>The \<open>id\<close>, \<open>label\<close> and \<open>description\<close> of the entries of \<open>skinTypes\<close>.\<close>

record SkinTypeOption =
  st_id :: string
  st_label :: string
  st_description :: string

definition skinTypes :: "SkinTypeOption list" where
  "skinTypes =
     [\<lparr>st_id = ''dry'', st_label = ''Dry'',
       st_description = ''Tight feeling, visible flakes, matte appearance''\<rparr>,
      \<lparr>st_id = ''normal'', st_label = ''Normal'',
       st_description = ''Balanced, minimal concerns, even texture''\<rparr>,
      \<lparr>st_id = ''oily'', st_label = ''Oily'',
       st_description = ''Shiny appearance, enlarged pores, prone to breakouts''\<rparr>]"

datatype Section = Skin | Wellness

text \<open>The \<open>useState\<close> cells of \<open>CalibrationPage\<close>, prefixed \<open>cp_\<close>.\<close>

record CalibrationPageState =
  cp_ph :: number
  cp_skinType :: "string option"
  cp_temperature :: number
  cp_stressLevel :: number
  cp_heartRate :: number
  cp_lifestyleScenario :: string
  cp_isSubmitting :: bool
  cp_activeSection :: Section

definition initialCalibrationPage :: CalibrationPageState where
  "initialCalibrationPage =
     \<lparr>cp_ph = 5.5, cp_skinType = None, cp_temperature = 36.5, cp_stressLevel = 50,
      cp_heartRate = 72, cp_lifestyleScenario = [], cp_isSubmitting = False,
      cp_activeSection = Skin\<rparr>"

definition calibration_canProceed :: "CalibrationPageState \<Rightarrow> bool" where
  "calibration_canProceed p = (cp_skinType p \<noteq> None)"

text \<open>
  \<open>handleSubmit\<close> of \<open>CalibrationPage\<close>. The argument \<open>now\<close> is
  \<open>new Date().toISOString()\<close>. The push of \<open>/neuro-brief\<close> follows a timer of one second;
  the delay is not modelled.
\<close>

definition calibration_handleSubmit ::
  "string \<Rightarrow> CalibrationPageState \<times> Browser \<Rightarrow> CalibrationPageState \<times> Browser" where
  "calibration_handleSubmit now s =
     (case s of (p, b) \<Rightarrow>
        if \<not> calibration_canProceed p then (p, b)
        else
          let calibrationData =
                \<lparr>cd_ph = cp_ph p, cd_skinType = cp_skinType p,
                 cd_temperature = cp_temperature p, cd_stressLevel = cp_stressLevel p,
                 cd_heartRate = cp_heartRate p,
                 cd_lifestyleScenario = cp_lifestyleScenario p, cd_timestamp = now\<rparr>
          in (p\<lparr>cp_isSubmitting := True\<rparr>,
              b\<lparr>sensora_calibration := Some calibrationData,
                pushed := pushed b @ [''/neuro-brief'']\<rparr>))"

text \<open>
  What the user can do on the page. A range input hands its handler a value between its
  \<open>min\<close> and \<open>max\<close> attributes (3.0 and 9.0 for the pH, 35.0 and 38.0 for the
  temperature); a skin-type button exists for each entry of \<open>skinTypes\<close> and passes that
  entry's \<open>id\<close>; a disabled button does not call its handler, and the submit button is
  disabled when \<open>!canProceed || isSubmitting\<close>. The handlers of the wellness section
  pass numbers and a scenario name that this page does not constrain. An event that
  cannot occur yields \<open>None\<close>.
\<close>

datatype CalibrationEvent =
    PhChange number
  | TemperatureChange number
  | SkinTypeClick nat
  | StressLevelChange number
  | HeartRateChange number
  | ScenarioChange string
  | SectionClick Section
  | SubmitClick string

fun calibration_event ::
  "CalibrationEvent \<Rightarrow> CalibrationPageState \<times> Browser \<Rightarrow> (CalibrationPageState \<times> Browser) option" where
  "calibration_event (PhChange v) (p, b) =
     (if 3.0 \<le> v \<and> v \<le> 9.0 then Some (p\<lparr>cp_ph := v\<rparr>, b) else None)"
| "calibration_event (TemperatureChange v) (p, b) =
     (if 35.0 \<le> v \<and> v \<le> 38.0 then Some (p\<lparr>cp_temperature := v\<rparr>, b) else None)"
| "calibration_event (SkinTypeClick i) (p, b) =
     (if i < length skinTypes then Some (p\<lparr>cp_skinType := Some (st_id (skinTypes ! i))\<rparr>, b)
      else None)"
| "calibration_event (StressLevelChange v) (p, b) = Some (p\<lparr>cp_stressLevel := v\<rparr>, b)"
| "calibration_event (HeartRateChange v) (p, b) = Some (p\<lparr>cp_heartRate := v\<rparr>, b)"
| "calibration_event (ScenarioChange x) (p, b) = Some (p\<lparr>cp_lifestyleScenario := x\<rparr>, b)"
| "calibration_event (SectionClick x) (p, b) = Some (p\<lparr>cp_activeSection := x\<rparr>, b)"
| "calibration_event (SubmitClick now) (p, b) =
     (if \<not> calibration_canProceed p \<or> cp_isSubmitting p then None
      else Some (calibration_handleSubmit now (p, b)))"

fun calibration_run ::
  "CalibrationEvent list \<Rightarrow> CalibrationPageState \<times> Browser \<Rightarrow> (CalibrationPageState \<times> Browser) option" where
  "calibration_run [] s = Some s"
| "calibration_run (e # es) s =
     (case calibration_event e s of None \<Rightarrow> None | Some s' \<Rightarrow> calibration_run es s')"

text \<open>
  Mounting the page. Every mount of \<open>CalibrationPage\<close> creates its \<open>useState\<close> cells
  anew with their initial values, \<open>isSubmitting\<close> among them; what \<open>localStorage\<close> holds
  is not touched. The neuro-brief page links back to \<open>/calibration\<close>, so the page is also
  mounted in a browser that already holds a stored record.
\<close>

definition calibration_mount :: "Browser \<Rightarrow> CalibrationPageState \<times> Browser" where
  "calibration_mount b = (initialCalibrationPage, b)"

text \<open>
  What every state of the page satisfies: the two sliders are within their bounds and the
  skin type, when chosen, is the \<open>id\<close> of one of the three options.
\<close>

definition calibration_page_ok :: "CalibrationPageState \<Rightarrow> bool" where
  "calibration_page_ok p =
     (3.0 \<le> cp_ph p \<and> cp_ph p \<le> 9.0 \<and> 35.0 \<le> cp_temperature p \<and> cp_temperature p \<le> 38.0 \<and>
      (cp_skinType p = None \<or> cp_skinType p = Some ''dry'' \<or> cp_skinType p = Some ''normal'' \<or>
       cp_skinType p = Some ''oily''))"

text \<open>The ranges the specification declares for a biochemical profile.\<close>

definition declared_ranges :: "calibrationData \<Rightarrow> bool" where
  "declared_ranges r =
     (3.0 \<le> cd_ph r \<and> cd_ph r \<le> 9.0 \<and> 35.0 \<le> cd_temperature r \<and> cd_temperature r \<le> 38.0 \<and>
      (cd_skinType r = Some ''dry'' \<or> cd_skinType r = Some ''normal'' \<or>
       cd_skinType r = Some ''oily''))"


section \<open>The neuro-brief page\<close>

text \<open>The \<open>useState\<close> cells of \<open>NeuroBriefPage\<close>, prefixed \<open>np_\<close>.\<close>

record NeuroBriefPageState =
  np_prompt :: jsstring
  np_valence :: jsnum
  np_arousal :: jsnum
  np_isSubmitting :: bool
  np_showSuggestions :: bool

definition initialNeuroBriefPage :: NeuroBriefPageState where
  "initialNeuroBriefPage =
     \<lparr>np_prompt = [], np_valence = Finite 0.3, np_arousal = Finite 0.2,
      np_isSubmitting = False, np_showSuggestions = True\<rparr>"

text \<open>The effect run when the page mounts: without a stored calibration, go back.\<close>

definition neuroBrief_mount :: "Browser \<Rightarrow> Browser" where
  "neuroBrief_mount b =
     (if sensora_calibration b = None then b\<lparr>pushed := pushed b @ [''/calibration'']\<rparr> else b)"

text \<open>The callback handed to \<open>MoodQuadrant\<close> as \<open>onPositionChange\<close>.\<close>

definition onPositionChange :: "jsnum \<times> jsnum \<Rightarrow> NeuroBriefPageState \<Rightarrow> NeuroBriefPageState" where
  "onPositionChange va p = p\<lparr>np_valence := fst va, np_arousal := snd va\<rparr>"

definition neuroBrief_canProceed :: "NeuroBriefPageState \<Rightarrow> bool" where
  "neuroBrief_canProceed p = (length (trim (np_prompt p)) > 10)"

text \<open>The hint shown under the text area, which counts the untrimmed prompt.\<close>

definition promptHint :: "NeuroBriefPageState \<Rightarrow> string" where
  "promptHint p = (if length (np_prompt p) < 10 then ''Minimum 10 characters'' else ''Ready'')"

text \<open>
  \<open>handleSubmit\<close> of \<open>NeuroBriefPage\<close>. The push of \<open>/result\<close> follows a timer of 1.5
  seconds; the delay is not modelled.
\<close>

definition neuroBrief_handleSubmit ::
  "string \<Rightarrow> NeuroBriefPageState \<times> Browser \<Rightarrow> NeuroBriefPageState \<times> Browser" where
  "neuroBrief_handleSubmit now s =
     (case s of (p, b) \<Rightarrow>
        if \<not> neuroBrief_canProceed p then (p, b)
        else
          let neuroBriefData =
                \<lparr>nd_prompt = np_prompt p, nd_valence = np_valence p,
                 nd_arousal = np_arousal p, nd_timestamp = now\<rparr>
          in (p\<lparr>np_isSubmitting := True\<rparr>,
              b\<lparr>sensora_neuro_brief := Some neuroBriefData,
                pushed := pushed b @ [''/result'']\<rparr>))"


section \<open>The formulation pipeline\<close>

text \<open>
  The formulation pipeline (Emotion Mapper, Compliance Validator, Orchestrator) is not
  among the sources of the front end. The definitions of this section are written from
  the specification's description of those components, each one introduced by what it is
  modelled from and what is missing. Concentrations and weights are reals; rounding of
  floating-point numbers is not modelled.
\<close>

subsection \<open>Emotion Mapper\<close>

text \<open>
  Modelled from the spec: the scent-family tags of the Emotion Mapper, whose source is
  missing. There is one tag for each named quadrant of section 4.1: bright/citrus/floral
  (high valence, high arousal), calm/woody/musk (high valence, low arousal),
  sharp/spicy/green (low valence, high arousal) and deep/resinous/smoky (low valence,
  low arousal).
\<close>

datatype ScentFamily = BrightCitrusFloral | CalmWoodyMusk | SharpSpicyGreen | DeepResinousSmoky

definition families :: "ScentFamily list" where
  "families = [BrightCitrusFloral, CalmWoodyMusk, SharpSpicyGreen, DeepResinousSmoky]"

text \<open>
  Modelled from the spec: \<open>WeightedAccords\<close>, a mapping from scent-family tag to weight,
  as the list of its entries in the order of \<open>families\<close>.
\<close>

type_synonym WeightedAccords = "(ScentFamily \<times> real) list"

text \<open>
  Modelled from the spec: the clamping of section 4.1 (out-of-range valence and arousal
  are clamped to [-1,1], never rejected); the function itself is missing.
\<close>

definition clampUnit :: "real \<Rightarrow> real" where
  "clampUnit x = max (- 1) (min 1 x)"

text \<open>
  Modelled from the spec: the partition of the plane of section 4.1, missing from the
  sources. The thresholds are those of the label of the mood quadrant (0.15 on each axis);
  a point that the label calls neutral has no dominant family.
\<close>

definition dominantFamily :: "real \<Rightarrow> real \<Rightarrow> ScentFamily option" where
  "dominantFamily v a =
     (if v > 0.15 \<and> a > 0.15 then Some BrightCitrusFloral
      else if v > 0.15 \<and> a < - 0.15 then Some CalmWoodyMusk
      else if v < - 0.15 \<and> a > 0.15 then Some SharpSpicyGreen
      else if v < - 0.15 \<and> a < - 0.15 then Some DeepResinousSmoky
      else None)"

text \<open>
  Modelled from the spec: \<open>EmotionMapper.map\<close> of section 4.1, whose source is missing.
  The pair is clamped first. A point without dominant family blends the four families
  evenly. Within a quadrant the weight of the dominant family is the Euclidean distance
  of the point from the centre, saturating at 1, where the dominant family has all the
  weight; the other three families share the rest evenly.
\<close>

definition EmotionMapper_map :: "real \<Rightarrow> real \<Rightarrow> WeightedAccords" where
  "EmotionMapper_map valence arousal =
     (let v = clampUnit valence; a = clampUnit arousal
      in case dominantFamily v a of
           None \<Rightarrow> map (\<lambda>f. (f, 1 / 4)) families
         | Some q \<Rightarrow>
             let w = min 1 (sqrt (v * v + a * a))
             in map (\<lambda>f. (f, if f = q then w else (1 - w) / 3)) families)"

subsection \<open>Data of the pipeline\<close>

text \<open>
  Modelled from the spec: the records of section 3 (\<open>BiochemicalProfile\<close>,
  \<open>EmotionalTarget\<close>, \<open>IngredientRecord\<close>, \<open>CorrectionDirective\<close>, \<open>ComplianceResult\<close> and
  its violation entries, \<open>Formula\<close> and its metrics), whose declarations are missing. A
  draft formula is the ordered collection of pairs of an ingredient and its concentration
  in percent; the partition by note class is read off the ingredients.
\<close>

datatype NoteClass = TopNote | MiddleNote | BaseNote

record BiochemicalProfile =
  ph :: real
  skinType :: SkinType
  temperatureC :: real

record EmotionalTarget =
  valence :: real
  arousal :: real
  prompt :: "string option"

record IngredientRecord =
  name :: string
  family :: ScentFamily
  noteClass :: NoteClass
  baseConcentrationPct :: real
  structuralDescriptor :: string
  sustainable :: bool

record CorrectionDirective =
  ruleId :: string
  targetNoteClass :: "NoteClass option"
  targetIngredientFamily :: "ScentFamily option"
  adjustmentPct :: real
  rationale :: string
  relevanceScore :: real

type_synonym DraftFormula = "(IngredientRecord \<times> real) list"

record Violation =
  ingredient :: string
  limitPct :: real
  observedPct :: real
  category :: string

record ComplianceResult =
  valid :: bool
  violations :: "Violation list"

record FormulaMetrics =
  fm_longevity :: real
  fm_projection :: real
  fm_uniqueness :: real
  fm_sustainability :: real
  complianceScore :: real

record Formula =
  entries :: DraftFormula
  formula_metrics :: FormulaMetrics

subsection \<open>Compliance Validator\<close>

text \<open>
  Modelled from the spec: the fixed external table of regulatory category ceilings that
  the validator looks up (section 4.5); the table is missing and is a parameter: the
  category of an ingredient and the ceiling, in percent, of a category.
\<close>

record ComplianceTable =
  categoryOf :: "IngredientRecord \<Rightarrow> string"
  ceilingPct :: "string \<Rightarrow> real"

definition ceilingOf :: "ComplianceTable \<Rightarrow> IngredientRecord \<Rightarrow> real" where
  "ceilingOf t i = ceilingPct t (categoryOf t i)"

text \<open>
  Modelled from the spec: the violation entry of section 3, for an ingredient observed at
  a concentration above its ceiling. It notes the value before the adjustment.
\<close>

definition violationOf :: "ComplianceTable \<Rightarrow> IngredientRecord \<Rightarrow> real \<Rightarrow> Violation" where
  "violationOf t i observed =
     \<lparr>ingredient = name i, limitPct = ceilingOf t i, observedPct = observed,
      category = categoryOf t i\<rparr>"

text \<open>
  Modelled from the spec: the first step of the Compliance Validator of section 4.5, whose
  source is missing. For each ingredient in order: when the observed concentration
  exceeds the ceiling of its category, the concentration becomes the ceiling and a
  violation entry is recorded; otherwise the entry is kept as it is.
\<close>

fun reduceToCeilings :: "ComplianceTable \<Rightarrow> DraftFormula \<Rightarrow> DraftFormula \<times> Violation list" where
  "reduceToCeilings t [] = ([], [])"
| "reduceToCeilings t ((i, pct) # rest) =
     (case reduceToCeilings t rest of (rest', vs) \<Rightarrow>
        if pct > ceilingOf t i
        then ((i, ceilingOf t i) # rest', violationOf t i pct # vs)
        else ((i, pct) # rest', vs))"

text \<open>
  Modelled from the spec: the mass that the reductions remove from one note class of a
  draft (section 4.5 redistributes it within the same note class).
\<close>

definition removedMass :: "ComplianceTable \<Rightarrow> NoteClass \<Rightarrow> DraftFormula \<Rightarrow> real" where
  "removedMass t nc draft =
     sum_list (map (\<lambda>(i, pct). if noteClass i = nc \<and> pct > ceilingOf t i
                                then pct - ceilingOf t i else 0) draft)"

text \<open>
  Modelled from the spec: the ingredients that may receive redistributed mass, the
  compliant ingredients of the note class; an ingredient at its ceiling has no room left.
\<close>

definition canReceive :: "ComplianceTable \<Rightarrow> NoteClass \<Rightarrow> IngredientRecord \<times> real \<Rightarrow> bool" where
  "canReceive t nc e = (case e of (i, pct) \<Rightarrow> noteClass i = nc \<and> pct < ceilingOf t i)"

text \<open>
  Modelled from the spec: one pass of the redistribution of section 4.5, missing from the
  sources. The excess of a note class is split equally among the ingredients of that
  class that can receive (equal split is one of the two weightings that section 9 leaves
  open); each receives its share or what brings it to its ceiling, whichever is less, so
  that the pass creates no new violation. The result is the formula and the excess that
  could not be placed.
\<close>

definition redistributePass ::
  "ComplianceTable \<Rightarrow> NoteClass \<Rightarrow> real \<Rightarrow> DraftFormula \<Rightarrow> DraftFormula \<times> real" where
  "redistributePass t nc excess f =
     (let n = length (filter (canReceive t nc) f)
      in if excess \<le> 0 \<or> n = 0 then (f, excess)
         else
           let share = excess / real n;
               f' = map (\<lambda>(i, pct).
                           if canReceive t nc (i, pct)
                           then (i, min (ceilingOf t i) (pct + share))
                           else (i, pct)) f
           in (f', excess - (sum_list (map snd f') - sum_list (map snd f))))"

text \<open>
  Modelled from the spec: the bounded iteration of section 4.5. After the given number of
  passes the excess that remains is removed, not redistributed.
\<close>

fun redistribute :: "nat \<Rightarrow> ComplianceTable \<Rightarrow> NoteClass \<Rightarrow> real \<Rightarrow> DraftFormula \<Rightarrow> DraftFormula" where
  "redistribute 0 t nc excess f = f"
| "redistribute (Suc n) t nc excess f =
     (case redistributePass t nc excess f of (f', rest) \<Rightarrow> redistribute n t nc rest f')"

text \<open>Modelled from the spec: the default number of passes of section 4.5.\<close>

definition maxPasses :: nat where
  "maxPasses = 3"

text \<open>
  Modelled from the spec: \<open>validate\<close> of section 4.5, whose source is missing. The
  concentrations above their ceilings are reduced and recorded, then the mass removed from
  each note class is redistributed within that class. It returns the adjusted formula
  with the result; the formula is marked valid when no violation was recorded.
\<close>

definition validate :: "ComplianceTable \<Rightarrow> DraftFormula \<Rightarrow> DraftFormula \<times> ComplianceResult" where
  "validate t draft =
     (case reduceToCeilings t draft of (reduced, vs) \<Rightarrow>
        (redistribute maxPasses t BaseNote (removedMass t BaseNote draft)
           (redistribute maxPasses t MiddleNote (removedMass t MiddleNote draft)
              (redistribute maxPasses t TopNote (removedMass t TopNote draft) reduced)),
         \<lparr>valid = (vs = []), violations = vs\<rparr>))"

text \<open>
  How an entry may differ after redistribution: the same ingredient, a concentration that
  is not lower, and either unchanged or at most the ceiling. How an entry differs after
  the first step: the same ingredient, cut to the ceiling with its violation recorded
  when it was above, and unchanged otherwise.
\<close>

definition raisedUpToCeiling ::
  "ComplianceTable \<Rightarrow> IngredientRecord \<times> real \<Rightarrow> IngredientRecord \<times> real \<Rightarrow> bool" where
  "raisedUpToCeiling t e e' =
     (fst e' = fst e \<and> snd e \<le> snd e' \<and> (snd e' \<le> ceilingOf t (fst e) \<or> snd e' = snd e))"

definition reducedToCeiling ::
  "ComplianceTable \<Rightarrow> Violation list \<Rightarrow> IngredientRecord \<times> real \<Rightarrow> IngredientRecord \<times> real \<Rightarrow> bool" where
  "reducedToCeiling t vs e e' =
     (fst e' = fst e \<and>
      (if snd e > ceilingOf t (fst e)
       then snd e' = ceilingOf t (fst e) \<and> violationOf t (fst e) (snd e) \<in> set vs
       else snd e' = snd e))"

subsection \<open>Orchestrator\<close>

text \<open>
  Modelled from the spec: the stages that the Orchestrator sequences and that the
  specification gives by contract only (Formula Assembler, Physiological Correction
  Retriever, application of the directives, the four metrics other than compliance), and
  the ceiling table. They are missing from the sources and are parameters.
\<close>

record Collaborators =
  assemble :: "WeightedAccords \<Rightarrow> DraftFormula"
  retrieve :: "BiochemicalProfile \<Rightarrow> CorrectionDirective list"
  applyDirectives :: "CorrectionDirective list \<Rightarrow> DraftFormula \<Rightarrow> DraftFormula"
  complianceTable :: ComplianceTable
  longevityOf :: "DraftFormula \<Rightarrow> real"
  projectionOf :: "DraftFormula \<Rightarrow> real"
  uniquenessOf :: "DraftFormula \<Rightarrow> real"
  sustainabilityOf :: "DraftFormula \<Rightarrow> real"

text \<open>
  Modelled from the spec: the draft that reaches the validator in section 4.6 (Emotion
  Mapper, then Assembler, then the directives of the Retriever applied).
\<close>

definition adjustedDraft :: "Collaborators \<Rightarrow> BiochemicalProfile \<Rightarrow> EmotionalTarget \<Rightarrow> DraftFormula" where
  "adjustedDraft c profile target =
     (let accords = EmotionMapper_map (valence target) (arousal target);
          draft = assemble c accords;
          directives = retrieve c profile
      in applyDirectives c directives draft)"

text \<open>
  Modelled from the spec: \<open>generateFormula\<close> of section 4.6, whose source is missing. The
  adjusted draft goes through the validator, the metrics are computed on the validated
  formula, and the compliance score is 1 minus the quotient of the violation count by the
  ingredient count. The quotient does not exist for a formula without ingredients, which
  the Assembler's contract excludes (at least one ingredient per note class); that case
  is \<open>None\<close>.
\<close>

definition generateFormula ::
  "Collaborators \<Rightarrow> BiochemicalProfile \<Rightarrow> EmotionalTarget \<Rightarrow> (Formula \<times> ComplianceResult) option" where
  "generateFormula c profile target =
     (case validate (complianceTable c) (adjustedDraft c profile target) of
        (final, result) \<Rightarrow>
          if final = [] then None
          else Some
            (\<lparr>entries = final,
              formula_metrics =
                \<lparr>fm_longevity = longevityOf c final,
                 fm_projection = projectionOf c final,
                 fm_uniqueness = uniquenessOf c final,
                 fm_sustainability = sustainabilityOf c final,
                 complianceScore =
                   1 - real (length (violations result)) / real (length final)\<rparr>\<rparr>,
             result))"


section \<open>Properties of the mood quadrant\<close>

text \<open>
  C1 (as stated, refuted). The claim says that the neutral label is returned exactly when both
  coordinates are within 0.15 of zero. At valence 1/2 and arousal 0 the point is inside the
  square, the valence is far from zero, and the label is still the neutral one.
\<close>

theorem getMoodLabel_neutral_counterexample:
  "- 1 \<le> (1/2 :: real) \<and> (1/2 :: real) \<le> 1 \<and> - 1 \<le> (0 :: real) \<and> (0 :: real) \<le> 1 \<and>
   getMoodLabel (1/2) 0 = ''Neutral / Balanced'' \<and>
   \<not> (\<bar>1/2 :: real\<bar> \<le> 0.15 \<and> \<bar>0 :: real\<bar> \<le> 0.15)"
  by (simp add: getMoodLabel_def)

text \<open>
  C1 (amended). For every valence and arousal, in particular for every pair of the square
  [-1,1] x [-1,1], \<open>getMoodLabel\<close> returns the neutral label if and only if at least one of
  the two coordinates is within 0.15 of zero (a cross-shaped band, not a box around the
  origin); everywhere else it returns the label of the quadrant that contains the point.
\<close>

theorem getMoodLabel_neutral_band:
  "(getMoodLabel v a = ''Neutral / Balanced'') = (\<bar>v\<bar> \<le> 0.15 \<or> \<bar>a\<bar> \<le> 0.15) \<and>
   (\<not> (\<bar>v\<bar> \<le> 0.15 \<or> \<bar>a\<bar> \<le> 0.15) \<longrightarrow> getMoodLabel v a = quadrantLabel v a)"
  by (auto simp add: getMoodLabel_def quadrantLabel_def)

theorem getMoodLabel_neutral_band_witness:
  "(getMoodLabel (1/2) 0 = ''Neutral / Balanced'') = (\<bar>1/2 :: real\<bar> \<le> 0.15 \<or> \<bar>0 :: real\<bar> \<le> 0.15) \<and>
   \<not> (\<bar>- (1/2) :: real\<bar> \<le> 0.15 \<or> \<bar>1/4 :: real\<bar> \<le> 0.15) \<and>
   getMoodLabel (- (1/2)) (1/4) = quadrantLabel (- (1/2)) (1/4) \<and>
   quadrantLabel (- (1/2)) (1/4) = ''Tense / Anxious''"
  using getMoodLabel_neutral_band [of "1/2" 0] getMoodLabel_neutral_band [of "- (1/2)" "1/4"]
  by (simp add: quadrantLabel_def)

text \<open>
  C4. At valence 0.3 and arousal 0.2, the initial position of the page, the label is
  that of the high-valence, high-arousal quadrant.
\<close>

theorem getMoodLabel_initial_position:
  "getMoodLabel 0.3 0.2 = ''Excited / Joyful''"
  by (simp add: getMoodLabel_def)

text \<open>
  C2 (as stated, refuted). The handler does not clamp. A click event whose coordinates are
  (0, 0), as a synthetic click has them, on an element whose box starts at (100, 100) and
  is 200 wide and high, hands valence -2 and arousal 2 to the consumer.
\<close>

theorem handleClick_unclamped_counterexample:
  "handleClick \<lparr>clientX = 0, clientY = 0\<rparr> \<lparr>left = 100, top = 100, width = 200, height = 200\<rparr>
     = (Finite (- 2), Finite 2) \<and>
   \<not> in_unit_range (fst (handleClick \<lparr>clientX = 0, clientY = 0\<rparr>
                          \<lparr>left = 100, top = 100, width = 200, height = 200\<rparr>))"
  by (simp add: handleClick_def)

text \<open>
  C2 (amended). The handler never rejects an event: it always hands a pair to the consumer.
  When the clicked element has positive width and height and the click lies inside its
  bounding rectangle, both values handed over are finite and lie in [-1,1].
\<close>

theorem handleClick_inside_rect:
  assumes "0 < width rect" and "0 < height rect"
    and "left rect \<le> clientX e" and "clientX e \<le> left rect + width rect"
    and "top rect \<le> clientY e" and "clientY e \<le> top rect + height rect"
  shows "in_unit_range (fst (handleClick e rect)) \<and> in_unit_range (snd (handleClick e rect))"
proof -
  let ?x = "(clientX e - left rect) / width rect"
  let ?y = "(clientY e - top rect) / height rect"
  have x: "0 \<le> ?x \<and> ?x \<le> 1" using assms by (simp add: field_simps)
  have y: "0 \<le> ?y \<and> ?y \<le> 1" using assms by (simp add: field_simps)
  have v: "fst (handleClick e rect) = Finite (?x * 2 - 1)"
    using assms by (simp add: handleClick_def)
  have a: "snd (handleClick e rect) = Finite ((1 - ?y) * 2 - 1)"
    using assms by (simp add: handleClick_def)
  have lin: "- 1 \<le> q * 2 - 1 \<and> q * 2 - 1 \<le> 1 \<and> - 1 \<le> (1 - q) * 2 - 1 \<and> (1 - q) * 2 - 1 \<le> 1"
    if "0 \<le> q \<and> q \<le> 1" for q :: real
    using that by auto
  have "in_unit_range (Finite (?x * 2 - 1))"
    using lin [OF x] by (simp only: in_unit_range.simps)
  moreover have "in_unit_range (Finite ((1 - ?y) * 2 - 1))"
    using lin [OF y] by (simp only: in_unit_range.simps)
  ultimately show ?thesis by (simp only: v a)
qed

theorem handleClick_inside_rect_witness:
  "in_unit_range (fst (handleClick \<lparr>clientX = 150, clientY = 300\<rparr>
                        \<lparr>left = 100, top = 100, width = 200, height = 200\<rparr>)) \<and>
   in_unit_range (snd (handleClick \<lparr>clientX = 150, clientY = 300\<rparr>
                        \<lparr>left = 100, top = 100, width = 200, height = 200\<rparr>)) \<and>
   handleClick \<lparr>clientX = 150, clientY = 300\<rparr> \<lparr>left = 100, top = 100, width = 200, height = 200\<rparr>
     = (Finite (- (1/2)), Finite (- 1))"
  using handleClick_inside_rect [of "\<lparr>left = 100, top = 100, width = 200, height = 200\<rparr>"
                                     "\<lparr>clientX = 150, clientY = 300\<rparr>"]
  by (simp add: handleClick_def)


section \<open>Properties of the user-profile store\<close>

lemma spread_absent: "spread previous None = previous"
  by (simp add: spread_def)

lemma spread_present: "spread previous (Some v) = v"
  by (simp add: spread_def)

text \<open>
  C9. For every partial update \<open>d\<close>, \<open>setCalibration d\<close> leaves each calibration field that
  \<open>d\<close> does not name at its previous value, sets the calibration timestamp to the current
  time, and leaves \<open>neuroBrief\<close>, \<open>formula\<close>, \<open>currentStep\<close>, \<open>isGenerating\<close> and \<open>error\<close>
  as they were; \<open>setNeuroBrief\<close> does the same for its slice.
\<close>

theorem setCalibration_setNeuroBrief_frame:
  "(pc_ph d = None \<longrightarrow>
      cal_ph (calibration (setCalibration d now s)) = cal_ph (calibration s)) \<and>
   (pc_skinType d = None \<longrightarrow>
      cal_skinType (calibration (setCalibration d now s)) = cal_skinType (calibration s)) \<and>
   (pc_temperature d = None \<longrightarrow>
      cal_temperature (calibration (setCalibration d now s)) = cal_temperature (calibration s)) \<and>
   cal_timestamp (calibration (setCalibration d now s)) = Some now \<and>
   neuroBrief (setCalibration d now s) = neuroBrief s \<and>
   formula (setCalibration d now s) = formula s \<and>
   currentStep (setCalibration d now s) = currentStep s \<and>
   isGenerating (setCalibration d now s) = isGenerating s \<and>
   error (setCalibration d now s) = error s \<and>
   (pn_prompt n = None \<longrightarrow>
      nb_prompt (neuroBrief (setNeuroBrief n now s)) = nb_prompt (neuroBrief s)) \<and>
   (pn_valence n = None \<longrightarrow>
      nb_valence (neuroBrief (setNeuroBrief n now s)) = nb_valence (neuroBrief s)) \<and>
   (pn_arousal n = None \<longrightarrow>
      nb_arousal (neuroBrief (setNeuroBrief n now s)) = nb_arousal (neuroBrief s)) \<and>
   nb_timestamp (neuroBrief (setNeuroBrief n now s)) = Some now \<and>
   calibration (setNeuroBrief n now s) = calibration s \<and>
   formula (setNeuroBrief n now s) = formula s \<and>
   currentStep (setNeuroBrief n now s) = currentStep s \<and>
   isGenerating (setNeuroBrief n now s) = isGenerating s \<and>
   error (setNeuroBrief n now s) = error s"
  by (simp add: setCalibration_def setNeuroBrief_def spread_absent)

text \<open>
  The update \<open>{skinType: 'oily'}\<close> on a store that holds a pH of 6.2 and an earlier
  timestamp, and the update \<open>{valence: 0.5}\<close> on the same store.
\<close>

theorem setCalibration_setNeuroBrief_frame_witness:
  "pc_ph \<lparr>pc_ph = None, pc_skinType = Some (Some Oily), pc_temperature = None,
          pc_timestamp = None\<rparr> = None \<and>
   setCalibration
     \<lparr>pc_ph = None, pc_skinType = Some (Some Oily), pc_temperature = None, pc_timestamp = None\<rparr>
     ''2024-05-02T10:00:00.000Z''
     (initialState\<lparr>calibration :=
        \<lparr>cal_ph = 6.2, cal_skinType = Some Dry, cal_temperature = 36.5,
         cal_timestamp = Some ''2024-05-01T09:00:00.000Z''\<rparr>\<rparr>)
   = initialState\<lparr>calibration :=
        \<lparr>cal_ph = 6.2, cal_skinType = Some Oily, cal_temperature = 36.5,
         cal_timestamp = Some ''2024-05-02T10:00:00.000Z''\<rparr>\<rparr> \<and>
   pn_prompt \<lparr>pn_prompt = None, pn_valence = Some (1/2), pn_arousal = None,
              pn_timestamp = None\<rparr> = None \<and>
   nb_prompt (neuroBrief (setNeuroBrief
     \<lparr>pn_prompt = None, pn_valence = Some (1/2), pn_arousal = None, pn_timestamp = None\<rparr>
     ''2024-05-02T10:00:00.000Z''
     (initialState\<lparr>calibration :=
        \<lparr>cal_ph = 6.2, cal_skinType = Some Dry, cal_temperature = 36.5,
         cal_timestamp = Some ''2024-05-01T09:00:00.000Z''\<rparr>\<rparr>))) = []"
  using setCalibration_setNeuroBrief_frame
    [of "\<lparr>pc_ph = None, pc_skinType = Some (Some Oily), pc_temperature = None,
           pc_timestamp = None\<rparr>"
        "''2024-05-02T10:00:00.000Z''"
        "initialState\<lparr>calibration :=
           \<lparr>cal_ph = 6.2, cal_skinType = Some Dry, cal_temperature = 36.5,
            cal_timestamp = Some ''2024-05-01T09:00:00.000Z''\<rparr>\<rparr>"
        "\<lparr>pn_prompt = None, pn_valence = Some (1/2), pn_arousal = None, pn_timestamp = None\<rparr>"]
  by (simp add: setCalibration_def setNeuroBrief_def spread_def initialState_def
        initialNeuroBrief_def)

text \<open>
  C10. Whatever the store held, after \<open>resetAll\<close> it holds the initial data: calibration
  with pH 5.5, no skin type, temperature 36.5 and no timestamp; a neuro-brief with the
  empty prompt, valence 0, arousal 0 and no timestamp; no formula, step 0, not generating,
  no error. In that state neither completeness check succeeds.
\<close>

theorem resetAll_initial:
  "resetAll s =
     \<lparr>calibration =
        \<lparr>cal_ph = 5.5, cal_skinType = None, cal_temperature = 36.5, cal_timestamp = None\<rparr>,
      neuroBrief = \<lparr>nb_prompt = [], nb_valence = 0, nb_arousal = 0, nb_timestamp = None\<rparr>,
      formula = None, currentStep = 0, isGenerating = False, error = None\<rparr> \<and>
   resetAll s = initialState \<and>
   \<not> isCalibrationComplete (resetAll s) \<and>
   \<not> isNeuroBriefComplete (resetAll s)"
  by (simp add: resetAll_def initialState_def initialCalibration_def initialNeuroBrief_def
        isCalibrationComplete_def isNeuroBriefComplete_def)


section \<open>Properties of the calibration page\<close>

lemma initialCalibrationPage_ok: "calibration_page_ok initialCalibrationPage"
  by (simp add: calibration_page_ok_def initialCalibrationPage_def)

lemma skinTypes_ids:
  assumes "i < length skinTypes"
  shows "st_id (skinTypes ! i) = ''dry'' \<or> st_id (skinTypes ! i) = ''normal'' \<or>
         st_id (skinTypes ! i) = ''oily''"
proof -
  from assms have "i = 0 \<or> i = 1 \<or> i = 2"
    by (auto simp add: skinTypes_def)
  then show ?thesis
    by (auto simp add: skinTypes_def)
qed

lemma calibration_handleSubmit_page_ok:
  "calibration_page_ok (fst (calibration_handleSubmit now (p, b))) = calibration_page_ok p"
  by (simp add: calibration_handleSubmit_def calibration_page_ok_def Let_def)

lemma calibration_event_ok:
  assumes "calibration_event e (p, b) = Some (p', b')" and "calibration_page_ok p"
  shows "calibration_page_ok p'"
proof (cases e)
  case (SkinTypeClick i)
  with assms(1) have i: "i < length skinTypes" and p': "p' = p\<lparr>cp_skinType := Some (st_id (skinTypes ! i))\<rparr>"
    by (auto split: if_splits)
  from skinTypes_ids [OF i] assms(2) show ?thesis
    unfolding p' calibration_page_ok_def by auto
next
  case (SubmitClick now)
  with assms(1) have "calibration_handleSubmit now (p, b) = (p', b')"
    by (auto split: if_splits)
  then have "fst (calibration_handleSubmit now (p, b)) = p'" by simp
  with calibration_handleSubmit_page_ok [of now p b] assms(2) show ?thesis by simp
qed (use assms in \<open>auto simp add: calibration_page_ok_def split: if_splits\<close>)

lemma calibration_run_ok:
  assumes "calibration_run evs s = Some s'" and "calibration_page_ok (fst s)"
  shows "calibration_page_ok (fst s')"
  using assms
proof (induction evs arbitrary: s)
  case Nil
  then show ?case by simp
next
  case (Cons e evs)
  from Cons.prems(1) obtain t where t: "calibration_event e s = Some t"
    and rest: "calibration_run evs t = Some s'"
    by (auto split: option.splits)
  from t Cons.prems(2) have "calibration_page_ok (fst t)"
    using calibration_event_ok [of e "fst s" "snd s" "fst t" "snd t"] by simp
  with Cons.IH [OF rest] show ?case .
qed

text \<open>Once the page is submitting, no event changes what the browser holds.\<close>

lemma calibration_event_submitting:
  assumes "calibration_event e (p, b) = Some (p', b')" and "cp_isSubmitting p"
  shows "b' = b \<and> cp_isSubmitting p'"
  using assms by (cases e) (auto split: if_splits)

lemma calibration_run_submitting:
  assumes "calibration_run evs s = Some s'" and "cp_isSubmitting (fst s)"
  shows "snd s' = snd s \<and> cp_isSubmitting (fst s')"
  using assms
proof (induction evs arbitrary: s)
  case Nil
  then show ?case by simp
next
  case (Cons e evs)
  from Cons.prems(1) obtain t where t: "calibration_event e s = Some t"
    and rest: "calibration_run evs t = Some s'"
    by (auto split: option.splits)
  from t Cons.prems(2) have step: "snd t = snd s \<and> cp_isSubmitting (fst t)"
    using calibration_event_submitting [of e "fst s" "snd s" "fst t" "snd t"] by simp
  with Cons.IH [OF rest] show ?case by simp
qed

lemma calibration_handleSubmit_stores:
  assumes "cp_skinType p \<noteq> None"
  shows "calibration_handleSubmit now (p, b) =
           (p\<lparr>cp_isSubmitting := True\<rparr>,
            b\<lparr>sensora_calibration :=
                Some \<lparr>cd_ph = cp_ph p, cd_skinType = cp_skinType p,
                      cd_temperature = cp_temperature p, cd_stressLevel = cp_stressLevel p,
                      cd_heartRate = cp_heartRate p,
                      cd_lifestyleScenario = cp_lifestyleScenario p, cd_timestamp = now\<rparr>,
              pushed := pushed b @ [''/neuro-brief'']\<rparr>)"
  using assms
  by (cases "cp_skinType p") (simp_all add: calibration_handleSubmit_def calibration_canProceed_def)

text \<open>
  C3 (as stated, refuted). The claim says that a stored profile record is not changed
  once it is stored. A first visit to the page stores a dry-skin record with pH 5.5. The
  user follows the link back to the page, which is mounted again with \<open>isSubmitting\<close>
  false, picks the third skin type, moves the pH slider to 4 and submits: the stored
  record is now another one.
\<close>

theorem calibration_profile_replaced_counterexample:
  "map_option snd
     (calibration_run [SkinTypeClick 0, SubmitClick ''2024-05-02T10:00:00.000Z'']
       (calibration_mount
          \<lparr>sensora_calibration = None, sensora_neuro_brief = None, pushed = []\<rparr>))
     = Some \<lparr>sensora_calibration =
               Some \<lparr>cd_ph = 5.5, cd_skinType = Some ''dry'', cd_temperature = 36.5,
                     cd_stressLevel = 50, cd_heartRate = 72, cd_lifestyleScenario = [],
                     cd_timestamp = ''2024-05-02T10:00:00.000Z''\<rparr>,
             sensora_neuro_brief = None, pushed = [''/neuro-brief'']\<rparr> \<and>
   map_option (sensora_calibration \<circ> snd)
     (calibration_run [SkinTypeClick 2, PhChange 4, SubmitClick ''2024-05-02T10:09:00.000Z'']
       (calibration_mount
          \<lparr>sensora_calibration =
               Some \<lparr>cd_ph = 5.5, cd_skinType = Some ''dry'', cd_temperature = 36.5,
                     cd_stressLevel = 50, cd_heartRate = 72, cd_lifestyleScenario = [],
                     cd_timestamp = ''2024-05-02T10:00:00.000Z''\<rparr>,
           sensora_neuro_brief = None, pushed = [''/neuro-brief'']\<rparr>))
     = Some (Some \<lparr>cd_ph = 4, cd_skinType = Some ''oily'', cd_temperature = 36.5,
                   cd_stressLevel = 50, cd_heartRate = 72, cd_lifestyleScenario = [],
                   cd_timestamp = ''2024-05-02T10:09:00.000Z''\<rparr>) \<and>
   \<lparr>cd_ph = 4, cd_skinType = Some ''oily'', cd_temperature = 36.5,
    cd_stressLevel = 50, cd_heartRate = 72, cd_lifestyleScenario = [],
    cd_timestamp = ''2024-05-02T10:09:00.000Z''\<rparr>
   \<noteq> \<lparr>cd_ph = 5.5, cd_skinType = Some ''dry'', cd_temperature = 36.5,
      cd_stressLevel = 50, cd_heartRate = 72, cd_lifestyleScenario = [],
      cd_timestamp = ''2024-05-02T10:00:00.000Z''\<rparr>"
  by (simp add: calibration_mount_def calibration_handleSubmit_def calibration_canProceed_def
        initialCalibrationPage_def skinTypes_def)

text \<open>
  C3 (amended). Take any sequence of user events on a calibration page mounted in any
  browser, whatever it held before. While no skin type is chosen, \<open>handleSubmit\<close> does
  nothing and the submit button cannot be clicked. Once a skin type is chosen,
  \<open>handleSubmit\<close> stores the record of the page's values at that moment; its pH lies in
  [3.0, 9.0], its temperature lies in [35.0, 38.0] and its skin type is dry, normal or
  oily; and no later event on the same mounted page changes the stored record. (A later
  mount of the page is again such a page: a submission there stores a new record, within
  the same ranges, in place of the earlier one.)
\<close>

theorem calibration_profile_captured:
  assumes "calibration_run evs (calibration_mount b0) = Some s"
  shows "(cp_skinType (fst s) = None \<longrightarrow>
            calibration_handleSubmit now s = s \<and>
            calibration_event (SubmitClick now) s = None) \<and>
         (cp_skinType (fst s) \<noteq> None \<longrightarrow>
            sensora_calibration (snd (calibration_handleSubmit now s)) =
              Some \<lparr>cd_ph = cp_ph (fst s), cd_skinType = cp_skinType (fst s),
                    cd_temperature = cp_temperature (fst s),
                    cd_stressLevel = cp_stressLevel (fst s),
                    cd_heartRate = cp_heartRate (fst s),
                    cd_lifestyleScenario = cp_lifestyleScenario (fst s),
                    cd_timestamp = now\<rparr> \<and>
            declared_ranges
              \<lparr>cd_ph = cp_ph (fst s), cd_skinType = cp_skinType (fst s),
               cd_temperature = cp_temperature (fst s),
               cd_stressLevel = cp_stressLevel (fst s),
               cd_heartRate = cp_heartRate (fst s),
               cd_lifestyleScenario = cp_lifestyleScenario (fst s),
               cd_timestamp = now\<rparr> \<and>
            (\<forall>evs' s'. calibration_run evs' (calibration_handleSubmit now s) = Some s' \<longrightarrow>
                sensora_calibration (snd s') =
                  sensora_calibration (snd (calibration_handleSubmit now s))))"
proof (intro conjI impI allI)
  assume unset: "cp_skinType (fst s) = None"
  show "calibration_handleSubmit now s = s"
    using unset by (cases s) (simp add: calibration_handleSubmit_def calibration_canProceed_def)
  show "calibration_event (SubmitClick now) s = None"
    using unset by (cases s) (simp add: calibration_canProceed_def)
next
  assume chosen: "cp_skinType (fst s) \<noteq> None"
  obtain p b where s: "s = (p, b)" by (cases s)
  have sub: "calibration_handleSubmit now s =
               (p\<lparr>cp_isSubmitting := True\<rparr>,
                b\<lparr>sensora_calibration :=
                    Some \<lparr>cd_ph = cp_ph p, cd_skinType = cp_skinType p,
                          cd_temperature = cp_temperature p, cd_stressLevel = cp_stressLevel p,
                          cd_heartRate = cp_heartRate p,
                          cd_lifestyleScenario = cp_lifestyleScenario p, cd_timestamp = now\<rparr>,
                  pushed := pushed b @ [''/neuro-brief'']\<rparr>)"
    using chosen s calibration_handleSubmit_stores [of p now b] by simp
  show "sensora_calibration (snd (calibration_handleSubmit now s)) =
          Some \<lparr>cd_ph = cp_ph (fst s), cd_skinType = cp_skinType (fst s),
                cd_temperature = cp_temperature (fst s),
                cd_stressLevel = cp_stressLevel (fst s),
                cd_heartRate = cp_heartRate (fst s),
                cd_lifestyleScenario = cp_lifestyleScenario (fst s),
                cd_timestamp = now\<rparr>"
    by (simp add: sub) (simp add: s)
next
  assume chosen: "cp_skinType (fst s) \<noteq> None"
  have "calibration_page_ok (fst (calibration_mount b0))"
    by (simp add: calibration_mount_def initialCalibrationPage_ok)
  from calibration_run_ok [OF assms this] have ok: "calibration_page_ok (fst s)" .
  show "declared_ranges
          \<lparr>cd_ph = cp_ph (fst s), cd_skinType = cp_skinType (fst s),
           cd_temperature = cp_temperature (fst s),
           cd_stressLevel = cp_stressLevel (fst s),
           cd_heartRate = cp_heartRate (fst s),
           cd_lifestyleScenario = cp_lifestyleScenario (fst s),
           cd_timestamp = now\<rparr>"
    using ok chosen by (auto simp add: declared_ranges_def calibration_page_ok_def)
next
  fix evs' s'
  assume chosen: "cp_skinType (fst s) \<noteq> None"
    and later: "calibration_run evs' (calibration_handleSubmit now s) = Some s'"
  obtain p b where s: "s = (p, b)" by (cases s)
  have "cp_isSubmitting (fst (calibration_handleSubmit now s))"
    using chosen s calibration_handleSubmit_stores [of p now b] by simp
  from calibration_run_submitting [OF later this]
  show "sensora_calibration (snd s') = sensora_calibration (snd (calibration_handleSubmit now s))"
    by simp
qed

text \<open>
  The user picks the first skin type and moves the pH slider to 6.2, then submits; later
  the pH slider is moved to 4 and the temperature slider to 37. The stored record is the
  one of the submission, within the declared ranges, and the later moves do not touch
  it. On the fresh page, with no skin type, \<open>handleSubmit\<close> changes nothing.
\<close>

theorem calibration_profile_captured_witness:
  "calibration_run [SkinTypeClick 0, PhChange 6.2]
     (calibration_mount
        \<lparr>sensora_calibration = None, sensora_neuro_brief = None, pushed = []\<rparr>)
     = Some (initialCalibrationPage\<lparr>cp_skinType := Some ''dry'', cp_ph := 6.2\<rparr>,
             \<lparr>sensora_calibration = None, sensora_neuro_brief = None, pushed = []\<rparr>) \<and>
   sensora_calibration (snd (calibration_handleSubmit ''2024-05-02T10:00:00.000Z''
       (initialCalibrationPage\<lparr>cp_skinType := Some ''dry'', cp_ph := 6.2\<rparr>,
        \<lparr>sensora_calibration = None, sensora_neuro_brief = None, pushed = []\<rparr>)))
     = Some \<lparr>cd_ph = 6.2, cd_skinType = Some ''dry'', cd_temperature = 36.5,
             cd_stressLevel = 50, cd_heartRate = 72, cd_lifestyleScenario = [],
             cd_timestamp = ''2024-05-02T10:00:00.000Z''\<rparr> \<and>
   declared_ranges \<lparr>cd_ph = 6.2, cd_skinType = Some ''dry'', cd_temperature = 36.5,
             cd_stressLevel = 50, cd_heartRate = 72, cd_lifestyleScenario = [],
             cd_timestamp = ''2024-05-02T10:00:00.000Z''\<rparr> \<and>
   map_option (sensora_calibration \<circ> snd)
     (calibration_run [PhChange 4, TemperatureChange 37]
       (calibration_handleSubmit ''2024-05-02T10:00:00.000Z''
         (initialCalibrationPage\<lparr>cp_skinType := Some ''dry'', cp_ph := 6.2\<rparr>,
          \<lparr>sensora_calibration = None, sensora_neuro_brief = None, pushed = []\<rparr>)))
     = Some (Some \<lparr>cd_ph = 6.2, cd_skinType = Some ''dry'', cd_temperature = 36.5,
             cd_stressLevel = 50, cd_heartRate = 72, cd_lifestyleScenario = [],
             cd_timestamp = ''2024-05-02T10:00:00.000Z''\<rparr>) \<and>
   calibration_handleSubmit ''2024-05-02T10:00:00.000Z''
     (initialCalibrationPage,
      \<lparr>sensora_calibration = None, sensora_neuro_brief = None, pushed = []\<rparr>)
     = (initialCalibrationPage,
        \<lparr>sensora_calibration = None, sensora_neuro_brief = None, pushed = []\<rparr>)"
proof -
  let ?b0 = "\<lparr>sensora_calibration = None, sensora_neuro_brief = None, pushed = []\<rparr>"
  let ?s = "(initialCalibrationPage\<lparr>cp_skinType := Some ''dry'', cp_ph := 6.2\<rparr>, ?b0)"
  let ?now = "''2024-05-02T10:00:00.000Z''"
  let ?r = "\<lparr>cd_ph = 6.2, cd_skinType = Some ''dry'', cd_temperature = 36.5,
             cd_stressLevel = 50, cd_heartRate = 72, cd_lifestyleScenario = [],
             cd_timestamp = ?now\<rparr>"
  have run: "calibration_run [SkinTypeClick 0, PhChange 6.2] (calibration_mount ?b0) = Some ?s"
    by (simp add: skinTypes_def calibration_mount_def)
  have fresh: "calibration_run [] (calibration_mount ?b0) = Some (initialCalibrationPage, ?b0)"
    by (simp add: calibration_mount_def)
  have unset: "cp_skinType (fst (initialCalibrationPage, ?b0)) = None"
    by (simp add: initialCalibrationPage_def)
  note on_fresh = calibration_profile_captured [OF fresh, of ?now, THEN conjunct1, THEN mp, OF unset]
  have noop: "calibration_handleSubmit ?now (initialCalibrationPage, ?b0) = (initialCalibrationPage, ?b0)"
    using on_fresh [THEN conjunct1] .
  have chosen: "cp_skinType (fst ?s) \<noteq> None"
    by simp
  note on_chosen = calibration_profile_captured [OF run, of ?now, THEN conjunct2, THEN mp, OF chosen]
  have stored: "sensora_calibration (snd (calibration_handleSubmit ?now ?s)) = Some ?r"
    using on_chosen [THEN conjunct1] by (simp add: initialCalibrationPage_def)
  have ranges: "declared_ranges ?r"
    using on_chosen [THEN conjunct2, THEN conjunct1] by (simp add: initialCalibrationPage_def)
  obtain s' where later: "calibration_run [PhChange 4, TemperatureChange 37]
                            (calibration_handleSubmit ?now ?s) = Some s'"
    by (simp add: calibration_handleSubmit_def calibration_canProceed_def)
  note frozen = on_chosen [THEN conjunct2, THEN conjunct2, THEN spec, THEN spec, THEN mp, OF later]
  from frozen stored have "sensora_calibration (snd s') = Some ?r" by simp
  with later have kept: "map_option (sensora_calibration \<circ> snd)
     (calibration_run [PhChange 4, TemperatureChange 37] (calibration_handleSubmit ?now ?s))
     = Some (Some ?r)"
    by simp
  from run stored ranges kept noop show ?thesis by (simp only: simp_thms)
qed


section \<open>Properties of the neuro-brief page\<close>

text \<open>
  C8. \<open>handleSubmit\<close> of the neuro-brief page stores the record of prompt, valence, arousal
  and timestamp and pushes \<open>/result\<close> exactly when the trimmed prompt is longer than 10
  code units; when the trimmed prompt has at most 10, it returns with the page, the
  storage and the router as they were.
\<close>

theorem neuroBrief_handleSubmit_threshold:
  "(10 < length (trim (np_prompt p)) \<longrightarrow>
      neuroBrief_handleSubmit now (p, b) =
        (p\<lparr>np_isSubmitting := True\<rparr>,
         b\<lparr>sensora_neuro_brief :=
             Some \<lparr>nd_prompt = np_prompt p, nd_valence = np_valence p,
                   nd_arousal = np_arousal p, nd_timestamp = now\<rparr>,
           pushed := pushed b @ [''/result'']\<rparr>)) \<and>
   (length (trim (np_prompt p)) \<le> 10 \<longrightarrow> neuroBrief_handleSubmit now (p, b) = (p, b)) \<and>
   (snd (neuroBrief_handleSubmit now (p, b)) \<noteq> b) = (10 < length (trim (np_prompt p)))"
proof -
  have changed: "b\<lparr>sensora_neuro_brief := x, pushed := pushed b @ [''/result'']\<rparr> \<noteq> b" for x
  proof
    assume "b\<lparr>sensora_neuro_brief := x, pushed := pushed b @ [''/result'']\<rparr> = b"
    then have "pushed (b\<lparr>sensora_neuro_brief := x, pushed := pushed b @ [''/result'']\<rparr>) = pushed b"
      by simp
    then show False by simp
  qed
  show ?thesis
    using changed by (simp add: neuroBrief_handleSubmit_def neuroBrief_canProceed_def)
qed

text \<open>
  A prompt of three letters followed by ten spaces has 13 code units, so the hint under
  the text area reads \<open>Ready\<close>, yet its trimmed length is 3 and \<open>handleSubmit\<close> does
  nothing. A prompt of eleven letters is stored and the page moves on.
\<close>

theorem neuroBrief_handleSubmit_threshold_witness:
  "length (trim [0x61, 0x62, 0x63, 0x20, 0x20, 0x20, 0x20, 0x20, 0x20, 0x20, 0x20, 0x20, 0x20]) = 3 \<and>
   promptHint (initialNeuroBriefPage\<lparr>np_prompt :=
       [0x61, 0x62, 0x63, 0x20, 0x20, 0x20, 0x20, 0x20, 0x20, 0x20, 0x20, 0x20, 0x20]\<rparr>) = ''Ready'' \<and>
   neuroBrief_handleSubmit ''2024-05-02T10:05:00.000Z''
     (initialNeuroBriefPage\<lparr>np_prompt :=
        [0x61, 0x62, 0x63, 0x20, 0x20, 0x20, 0x20, 0x20, 0x20, 0x20, 0x20, 0x20, 0x20]\<rparr>,
      \<lparr>sensora_calibration = None, sensora_neuro_brief = None, pushed = []\<rparr>)
     = (initialNeuroBriefPage\<lparr>np_prompt :=
          [0x61, 0x62, 0x63, 0x20, 0x20, 0x20, 0x20, 0x20, 0x20, 0x20, 0x20, 0x20, 0x20]\<rparr>,
        \<lparr>sensora_calibration = None, sensora_neuro_brief = None, pushed = []\<rparr>) \<and>
   length (trim [0x61, 0x61, 0x61, 0x61, 0x61, 0x61, 0x61, 0x61, 0x61, 0x61, 0x61 :: 16 word]) = 11 \<and>
   snd (neuroBrief_handleSubmit ''2024-05-02T10:05:00.000Z''
     (initialNeuroBriefPage\<lparr>np_prompt :=
        [0x61, 0x61, 0x61, 0x61, 0x61, 0x61, 0x61, 0x61, 0x61, 0x61, 0x61]\<rparr>,
      \<lparr>sensora_calibration = None, sensora_neuro_brief = None, pushed = []\<rparr>))
     = \<lparr>sensora_calibration = None,
        sensora_neuro_brief =
          Some \<lparr>nd_prompt = [0x61, 0x61, 0x61, 0x61, 0x61, 0x61, 0x61, 0x61, 0x61, 0x61, 0x61],
                nd_valence = Finite 0.3, nd_arousal = Finite 0.2,
                nd_timestamp = ''2024-05-02T10:05:00.000Z''\<rparr>,
        pushed = [''/result'']\<rparr>"
proof -
  let ?padded = "[0x61, 0x62, 0x63, 0x20, 0x20, 0x20, 0x20, 0x20, 0x20, 0x20, 0x20, 0x20, 0x20] :: jsstring"
  let ?long = "[0x61, 0x61, 0x61, 0x61, 0x61, 0x61, 0x61, 0x61, 0x61, 0x61, 0x61] :: jsstring"
  let ?b = "\<lparr>sensora_calibration = None, sensora_neuro_brief = None, pushed = []\<rparr>"
  let ?now = "''2024-05-02T10:05:00.000Z''"
  have short: "length (trim ?padded) = 3"
    by (simp add: trim_def isWhiteSpace_def)
  have long: "length (trim ?long) = 11"
    by (simp add: trim_def isWhiteSpace_def)
  have hint: "promptHint (initialNeuroBriefPage\<lparr>np_prompt := ?padded\<rparr>) = ''Ready''"
    by (simp add: promptHint_def)
  have noop: "neuroBrief_handleSubmit ?now (initialNeuroBriefPage\<lparr>np_prompt := ?padded\<rparr>, ?b)
                = (initialNeuroBriefPage\<lparr>np_prompt := ?padded\<rparr>, ?b)"
    using neuroBrief_handleSubmit_threshold [of "initialNeuroBriefPage\<lparr>np_prompt := ?padded\<rparr>" ?now ?b]
      short by simp
  have stored: "snd (neuroBrief_handleSubmit ?now (initialNeuroBriefPage\<lparr>np_prompt := ?long\<rparr>, ?b))
                = \<lparr>sensora_calibration = None,
                   sensora_neuro_brief =
                     Some \<lparr>nd_prompt = ?long, nd_valence = Finite 0.3, nd_arousal = Finite 0.2,
                           nd_timestamp = ?now\<rparr>,
                   pushed = [''/result'']\<rparr>"
    using neuroBrief_handleSubmit_threshold [of "initialNeuroBriefPage\<lparr>np_prompt := ?long\<rparr>" ?now ?b]
      long by (simp add: initialNeuroBriefPage_def)
  from short hint noop long stored show ?thesis by simp
qed


section \<open>Properties of the formulation pipeline\<close>

subsection \<open>Emotion Mapper\<close>

lemma clampUnit_range: "- 1 \<le> clampUnit x \<and> clampUnit x \<le> 1"
  by (simp add: clampUnit_def)

lemma blend_weights:
  assumes "0 \<le> w" and "w \<le> (1::real)"
  shows "list_all (\<lambda>(f, x). 0 \<le> x \<and> x \<le> 1)
           (map (\<lambda>f. (f, if f = q then w else (1 - w) / 3)) families)"
  using assms by (simp add: families_def)

lemma blend_sum:
  "sum_list (map snd (map (\<lambda>f. (f, if f = q then w else (1 - w) / 3)) families)) = (1::real)"
  by (cases q) (simp_all add: families_def field_simps)

lemma saturated_distance: "0 \<le> min 1 (sqrt (v * v + a * a)) \<and> min 1 (sqrt (v * v + a * a)) \<le> 1"
  by simp

text \<open>
  C5. For every valence and arousal, which the mapper clamps to [-1,1] x [-1,1],
  \<open>EmotionMapper.map\<close> returns one weight for each scent-family tag, every weight lies in
  [0,1], and the weights sum to 1 (exactly, over the reals). The result depends on the
  clamped pair only: two calls whose inputs clamp to the same pair, in particular two
  calls with identical inputs, yield identical weights.
\<close>

theorem EmotionMapper_map_weights:
  "map fst (EmotionMapper_map v a) = families \<and>
   list_all (\<lambda>(f, w). 0 \<le> w \<and> w \<le> 1) (EmotionMapper_map v a) \<and>
   sum_list (map snd (EmotionMapper_map v a)) = 1 \<and>
   (clampUnit v = clampUnit v' \<and> clampUnit a = clampUnit a' \<longrightarrow>
      EmotionMapper_map v a = EmotionMapper_map v' a')"
proof (intro conjI impI)
  show "map fst (EmotionMapper_map v a) = families"
    by (simp add: EmotionMapper_map_def Let_def comp_def split: option.split)
  show "list_all (\<lambda>(f, w). 0 \<le> w \<and> w \<le> 1) (EmotionMapper_map v a)"
  proof (cases "dominantFamily (clampUnit v) (clampUnit a)")
    case None
    then show ?thesis
      by (simp add: EmotionMapper_map_def Let_def families_def)
  next
    case (Some q)
    let ?w = "min 1 (sqrt (clampUnit v * clampUnit v + clampUnit a * clampUnit a))"
    have "0 \<le> ?w" and "?w \<le> 1"
      using saturated_distance [of "clampUnit v" "clampUnit a"] by simp_all
    from blend_weights [OF this, of q] Some show ?thesis
      by (simp add: EmotionMapper_map_def Let_def)
  qed
  show "sum_list (map snd (EmotionMapper_map v a)) = 1"
  proof (cases "dominantFamily (clampUnit v) (clampUnit a)")
    case None
    then show ?thesis
      by (simp add: EmotionMapper_map_def Let_def families_def)
  next
    case (Some q)
    with blend_sum [of q] show ?thesis
      by (simp add: EmotionMapper_map_def Let_def)
  qed
next
  assume "clampUnit v = clampUnit v' \<and> clampUnit a = clampUnit a'"
  then show "EmotionMapper_map v a = EmotionMapper_map v' a'"
    by (simp add: EmotionMapper_map_def)
qed

text \<open>
  At (0.6, 0.8), at distance 1 from the centre, the bright family has all the weight; at
  (0.1, 0.05) the four families are blended evenly; valence 3 is clamped to 1.
\<close>

theorem EmotionMapper_map_weights_witness:
  "EmotionMapper_map 0.6 0.8 =
     [(BrightCitrusFloral, 1), (CalmWoodyMusk, 0), (SharpSpicyGreen, 0), (DeepResinousSmoky, 0)] \<and>
   sum_list (map snd (EmotionMapper_map 0.6 0.8)) = 1 \<and>
   EmotionMapper_map 0.1 0.05 =
     [(BrightCitrusFloral, 1/4), (CalmWoodyMusk, 1/4), (SharpSpicyGreen, 1/4),
      (DeepResinousSmoky, 1/4)] \<and>
   clampUnit 3 = clampUnit 1 \<and> clampUnit 0 = clampUnit 0 \<and>
   EmotionMapper_map 3 0 = EmotionMapper_map 1 0"
proof -
  have one: "EmotionMapper_map 0.6 0.8 =
     [(BrightCitrusFloral, 1), (CalmWoodyMusk, 0), (SharpSpicyGreen, 0), (DeepResinousSmoky, 0)]"
    by (simp add: EmotionMapper_map_def clampUnit_def dominantFamily_def families_def)
  have even: "EmotionMapper_map 0.1 0.05 =
     [(BrightCitrusFloral, 1/4), (CalmWoodyMusk, 1/4), (SharpSpicyGreen, 1/4),
      (DeepResinousSmoky, 1/4)]"
    by (simp add: EmotionMapper_map_def clampUnit_def dominantFamily_def families_def)
  have clamped: "clampUnit 3 = clampUnit 1 \<and> clampUnit 0 = clampUnit 0"
    by (simp add: clampUnit_def)
  from EmotionMapper_map_weights [of "0.6" "0.8" "0.6" "0.8"]
  have total: "sum_list (map snd (EmotionMapper_map 0.6 0.8)) = 1" by blast
  from EmotionMapper_map_weights [of 3 0 1 0] clamped
  have same: "EmotionMapper_map 3 0 = EmotionMapper_map 1 0" by blast
  from one even clamped total same show ?thesis by simp
qed

subsection \<open>Compliance Validator\<close>

lemma reduceToCeilings_length:
  "reduceToCeilings t draft = (out, vs) \<Longrightarrow> length out = length draft \<and> length vs \<le> length draft"
proof (induction draft arbitrary: out vs)
  case Nil
  then show ?case by simp
next
  case (Cons e rest)
  obtain i pct where e: "e = (i, pct)" by (cases e)
  obtain rest' vs' where r: "reduceToCeilings t rest = (rest', vs')"
    by (cases "reduceToCeilings t rest")
  from Cons.IH [OF r] Cons.prems e r show ?case
    by (auto split: if_splits)
qed

lemma reducedToCeiling_more:
  "reducedToCeiling t vs' e e' \<Longrightarrow> set vs' \<subseteq> set vs \<Longrightarrow> reducedToCeiling t vs e e'"
  by (auto simp add: reducedToCeiling_def split: if_splits)

lemma reduceToCeilings_pointwise:
  "reduceToCeilings t draft = (out, vs) \<Longrightarrow> list_all2 (reducedToCeiling t vs) draft out"
proof (induction draft arbitrary: out vs)
  case Nil
  then show ?case by simp
next
  case (Cons e rest)
  obtain i pct where e: "e = (i, pct)" by (cases e)
  obtain rest' vs' where r: "reduceToCeilings t rest = (rest', vs')"
    by (cases "reduceToCeilings t rest")
  have sub: "set vs' \<subseteq> set vs"
    using Cons.prems e r by (auto split: if_splits)
  have tail: "list_all2 (reducedToCeiling t vs) rest rest'"
    by (rule list_all2_mono [OF Cons.IH [OF r]]) (rule reducedToCeiling_more [OF _ sub])
  show ?case
  proof (cases "pct > ceilingOf t i")
    case True
    with Cons.prems e r have "out = (i, ceilingOf t i) # rest'" and "vs = violationOf t i pct # vs'"
      by simp_all
    moreover from True \<open>vs = violationOf t i pct # vs'\<close>
    have "reducedToCeiling t vs (i, pct) (i, ceilingOf t i)"
      by (simp add: reducedToCeiling_def)
    ultimately show ?thesis using tail e by simp
  next
    case False
    with Cons.prems e r have "out = (i, pct) # rest'"
      by simp
    moreover from False have "reducedToCeiling t vs (i, pct) (i, pct)"
      by (simp add: reducedToCeiling_def)
    ultimately show ?thesis using tail e by simp
  qed
qed

lemma raisedUpToCeiling_refl: "raisedUpToCeiling t e e"
  by (simp add: raisedUpToCeiling_def)

lemma raisedUpToCeiling_trans:
  "raisedUpToCeiling t a b \<Longrightarrow> raisedUpToCeiling t b c \<Longrightarrow> raisedUpToCeiling t a c"
  by (auto simp add: raisedUpToCeiling_def)

lemma share_raised:
  assumes "0 < share"
  shows "raisedUpToCeiling t e
           (case e of (i, pct) \<Rightarrow>
              if canReceive t nc (i, pct) then (i, min (ceilingOf t i) (pct + share)) else (i, pct))"
proof (cases e)
  case (Pair i pct)
  with assms show ?thesis
    by (auto simp add: raisedUpToCeiling_def canReceive_def)
qed

lemma redistributePass_raised:
  "list_all2 (raisedUpToCeiling t) f (fst (redistributePass t nc excess f))"
proof (cases "excess \<le> 0 \<or> length (filter (canReceive t nc) f) = 0")
  case True
  then have "fst (redistributePass t nc excess f) = f"
    by (auto simp add: redistributePass_def Let_def)
  then show ?thesis
    by (simp add: list_all2_refl raisedUpToCeiling_refl)
next
  case False
  let ?share = "excess / real (length (filter (canReceive t nc) f))"
  from False have pos: "0 < ?share" by simp
  from False have out: "fst (redistributePass t nc excess f) =
      map (\<lambda>e. case e of (i, pct) \<Rightarrow>
                if canReceive t nc (i, pct) then (i, min (ceilingOf t i) (pct + ?share))
                else (i, pct)) f"
    by (simp add: redistributePass_def Let_def)
  show ?thesis
    unfolding out list_all2_map2 list_all2_same
    using share_raised [OF pos] by blast
qed

lemma redistribute_raised:
  "list_all2 (raisedUpToCeiling t) f (redistribute n t nc excess f)"
proof (induction n arbitrary: excess f)
  case 0
  show ?case by (simp add: list_all2_refl raisedUpToCeiling_refl)
next
  case (Suc n)
  obtain f' rest where p: "redistributePass t nc excess f = (f', rest)"
    by (cases "redistributePass t nc excess f")
  from redistributePass_raised [of t f nc excess] p
  have first: "list_all2 (raisedUpToCeiling t) f f'" by simp
  from Suc.IH [of f' rest] have then_on: "list_all2 (raisedUpToCeiling t) f' (redistribute n t nc rest f')" .
  from list_all2_trans [of "raisedUpToCeiling t" "raisedUpToCeiling t" "raisedUpToCeiling t",
      OF raisedUpToCeiling_trans first then_on]
  show ?case by (simp add: p)
qed

lemma validate_steps:
  assumes "reduceToCeilings t draft = (reduced, vs)"
  shows "violations (snd (validate t draft)) = vs"
    and "valid (snd (validate t draft)) = (vs = [])"
    and "list_all2 (raisedUpToCeiling t) reduced (fst (validate t draft))"
proof -
  let ?top = "redistribute maxPasses t TopNote (removedMass t TopNote draft) reduced"
  let ?mid = "redistribute maxPasses t MiddleNote (removedMass t MiddleNote draft) ?top"
  let ?base = "redistribute maxPasses t BaseNote (removedMass t BaseNote draft) ?mid"
  have out: "fst (validate t draft) = ?base"
    using assms by (simp add: validate_def)
  show "violations (snd (validate t draft)) = vs"
    using assms by (simp add: validate_def)
  show "valid (snd (validate t draft)) = (vs = [])"
    using assms by (simp add: validate_def)
  have a: "list_all2 (raisedUpToCeiling t) reduced ?top"
    by (rule redistribute_raised)
  have b: "list_all2 (raisedUpToCeiling t) ?top ?mid"
    by (rule redistribute_raised)
  have c: "list_all2 (raisedUpToCeiling t) ?mid ?base"
    by (rule redistribute_raised)
  note ab = list_all2_trans [of "raisedUpToCeiling t" "raisedUpToCeiling t" "raisedUpToCeiling t",
      OF raisedUpToCeiling_trans a b]
  note abc = list_all2_trans [of "raisedUpToCeiling t" "raisedUpToCeiling t" "raisedUpToCeiling t",
      OF raisedUpToCeiling_trans ab c]
  show "list_all2 (raisedUpToCeiling t) reduced (fst (validate t draft))"
    unfolding out by (rule abc)
qed

lemma reduced_then_raised:
  assumes "reducedToCeiling t vs e m" and "raisedUpToCeiling t m e'"
  shows "fst e' = fst e \<and> snd e' \<le> ceilingOf t (fst e) \<and>
         (snd e' < snd e \<longrightarrow>
            snd e' = ceilingOf t (fst e) \<and> violationOf t (fst e) (snd e) \<in> set vs)"
  using assms by (auto simp add: reducedToCeiling_def raisedUpToCeiling_def split: if_splits)

lemma validate_pointwise:
  "list_all2 (\<lambda>e e'. fst e' = fst e \<and> snd e' \<le> ceilingOf t (fst e) \<and>
         (snd e' < snd e \<longrightarrow>
            snd e' = ceilingOf t (fst e) \<and>
            violationOf t (fst e) (snd e) \<in> set (violations (snd (validate t draft)))))
     draft (fst (validate t draft))"
proof -
  obtain reduced vs where r: "reduceToCeilings t draft = (reduced, vs)"
    by (cases "reduceToCeilings t draft")
  note first = reduceToCeilings_pointwise [OF r]
  note second = validate_steps(3) [OF r]
  have vs: "violations (snd (validate t draft)) = vs"
    by (rule validate_steps(1) [OF r])
  show ?thesis
    unfolding vs
    by (rule list_all2_trans [OF _ first second]) (rule reduced_then_raised)
qed

lemma validate_counts:
  "length (fst (validate t draft)) = length draft \<and>
   length (violations (snd (validate t draft))) \<le> length draft"
proof -
  obtain reduced vs where r: "reduceToCeilings t draft = (reduced, vs)"
    by (cases "reduceToCeilings t draft")
  from list_all2_lengthD [OF validate_pointwise [of t draft]]
  have "length (fst (validate t draft)) = length draft" by simp
  moreover from reduceToCeilings_length [OF r] validate_steps(1) [OF r]
  have "length (violations (snd (validate t draft))) \<le> length draft" by simp
  ultimately show ?thesis by simp
qed

lemma validate_within_ceiling:
  "list_all (\<lambda>(i, pct). pct \<le> ceilingOf t i) (fst (validate t draft))"
proof -
  have "\<forall>k < length (fst (validate t draft)).
          snd (fst (validate t draft) ! k) \<le> ceilingOf t (fst (fst (validate t draft) ! k))"
  proof (intro allI impI)
    fix k assume "k < length (fst (validate t draft))"
    then have k: "k < length draft"
      using validate_counts [of t draft] by simp
    from list_all2_nthD [OF validate_pointwise [of t draft] k]
    show "snd (fst (validate t draft) ! k) \<le> ceilingOf t (fst (fst (validate t draft) ! k))"
      by simp
  qed
  then show ?thesis
    by (simp add: list_all_length case_prod_beta)
qed





subsection \<open>Orchestrator\<close>

text \<open>
  C7. For every profile and emotional target, and whatever the collaborating stages
  compute: \<open>generateFormula\<close> returns a formula exactly when the draft that reaches the
  validator has an ingredient. The formula it returns is the output of the Compliance
  Validator on that draft, returned together with the validator's result whether or not
  that result is valid, so every concentration in it is at or below its ceiling; and its
  compliance score is 1 minus the number of violations divided by the number of
  ingredients, a value in [0,1].
\<close>

theorem generateFormula_validated:
  "(generateFormula c profile target = None) = (adjustedDraft c profile target = []) \<and>
   (\<forall>formula result.
      generateFormula c profile target = Some (formula, result) \<longrightarrow>
        validate (complianceTable c) (adjustedDraft c profile target) = (entries formula, result) \<and>
        list_all (\<lambda>(i, pct). pct \<le> ceilingOf (complianceTable c) i) (entries formula) \<and>
        0 < length (entries formula) \<and>
        complianceScore (formula_metrics formula) =
          1 - real (length (violations result)) / real (length (entries formula)) \<and>
        0 \<le> complianceScore (formula_metrics formula) \<and>
        complianceScore (formula_metrics formula) \<le> 1)"
proof -
  let ?t = "complianceTable c"
  let ?draft = "adjustedDraft c profile target"
  obtain out result0 where val0: "validate ?t ?draft = (out, result0)"
    by (cases "validate ?t ?draft")
  define vs where "vs = violations result0"
  let ?result = "result0"
  have val: "validate ?t ?draft = (out, ?result)"
    by (rule val0)
  have len: "length out = length ?draft" and count: "length vs \<le> length out"
    using validate_counts [of ?t ?draft] by (simp_all add: val0 vs_def)
  have ceil: "list_all (\<lambda>(i, pct). pct \<le> ceilingOf ?t i) out"
    using validate_within_ceiling [of ?t ?draft] by (simp add: val0)
  have none: "(generateFormula c profile target = None) = (?draft = [])"
    using len by (auto simp add: generateFormula_def val)
  have some: "validate ?t ?draft = (entries formula, result) \<and>
        list_all (\<lambda>(i, pct). pct \<le> ceilingOf ?t i) (entries formula) \<and>
        0 < length (entries formula) \<and>
        complianceScore (formula_metrics formula) =
          1 - real (length (violations result)) / real (length (entries formula)) \<and>
        0 \<le> complianceScore (formula_metrics formula) \<and>
        complianceScore (formula_metrics formula) \<le> 1"
    if g: "generateFormula c profile target = Some (formula, result)" for formula result
  proof -
    from g have ne: "out \<noteq> []" and e: "entries formula = out" and r: "result = ?result"
      and score: "complianceScore (formula_metrics formula) =
                    1 - real (length vs) / real (length out)"
      by (auto simp add: generateFormula_def val vs_def split: if_splits)
    from ne have pos: "0 < real (length out)" by simp
    from count have "real (length vs) \<le> real (length out)" by simp
    with pos have quot: "real (length vs) / real (length out) \<le> 1"
      by (simp add: divide_le_eq_1)
    have quot0: "0 \<le> real (length vs) / real (length out)" by simp
    from quot quot0 have bounds: "0 \<le> 1 - real (length vs) / real (length out) \<and>
        1 - real (length vs) / real (length out) \<le> 1"
      by linarith
    from ne have "0 < length out" by simp
    with val ceil e r score bounds show ?thesis by (simp add: vs_def)
  qed
  from none some show ?thesis by blast
qed

text \<open>
  The scenario of the specification again, with an assembler that proposes amber at 50
  percent and rose at 35 percent, no directive, and a ceiling of 40 percent: the formula
  is returned with amber at 40, the result is not valid and lists one violation, and the
  compliance score is 1 - 1/2.
\<close>

theorem generateFormula_validated_witness:
  "generateFormula
     \<lparr>assemble = (\<lambda>accords.
        [(\<lparr>name = ''amber'', family = DeepResinousSmoky, noteClass = BaseNote,
           baseConcentrationPct = 45, structuralDescriptor = ''CCO'', sustainable = True\<rparr>, 50),
         (\<lparr>name = ''rose'', family = BrightCitrusFloral, noteClass = MiddleNote,
           baseConcentrationPct = 35, structuralDescriptor = ''CCCO'', sustainable = False\<rparr>, 35)]),
      retrieve = (\<lambda>profile. []),
      applyDirectives = (\<lambda>directives draft. draft),
      complianceTable = \<lparr>categoryOf = (\<lambda>i. ''leave-on''), ceilingPct = (\<lambda>c. 40)\<rparr>,
      longevityOf = (\<lambda>f. 0), projectionOf = (\<lambda>f. 0), uniquenessOf = (\<lambda>f. 0),
      sustainabilityOf = (\<lambda>f. 0)\<rparr>
     \<lparr>ph = 5.5, skinType = Dry, temperatureC = 36.5\<rparr>
     \<lparr>valence = 0.3, arousal = 0.2, prompt = None\<rparr>
   = Some
      (\<lparr>entries =
          [(\<lparr>name = ''amber'', family = DeepResinousSmoky, noteClass = BaseNote,
             baseConcentrationPct = 45, structuralDescriptor = ''CCO'', sustainable = True\<rparr>, 40),
           (\<lparr>name = ''rose'', family = BrightCitrusFloral, noteClass = MiddleNote,
             baseConcentrationPct = 35, structuralDescriptor = ''CCCO'', sustainable = False\<rparr>, 35)],
        formula_metrics =
          \<lparr>fm_longevity = 0, fm_projection = 0, fm_uniqueness = 0, fm_sustainability = 0,
           complianceScore = 1 / 2\<rparr>\<rparr>,
       \<lparr>valid = False,
        violations = [\<lparr>ingredient = ''amber'', limitPct = 40, observedPct = 50,
                       category = ''leave-on''\<rparr>]\<rparr>)"
proof -
  let ?amber = "\<lparr>name = ''amber'', family = DeepResinousSmoky, noteClass = BaseNote,
           baseConcentrationPct = 45, structuralDescriptor = ''CCO'', sustainable = True\<rparr>"
  let ?rose = "\<lparr>name = ''rose'', family = BrightCitrusFloral, noteClass = MiddleNote,
           baseConcentrationPct = 35, structuralDescriptor = ''CCCO'', sustainable = False\<rparr>"
  let ?t = "\<lparr>categoryOf = (\<lambda>i. ''leave-on''), ceilingPct = (\<lambda>c. 40 :: real)\<rparr>"
  let ?c = "\<lparr>assemble = (\<lambda>accords. [(?amber, 50), (?rose, 35)]),
      retrieve = (\<lambda>profile. []),
      applyDirectives = (\<lambda>directives draft. draft),
      complianceTable = ?t,
      longevityOf = (\<lambda>f. 0), projectionOf = (\<lambda>f. 0), uniquenessOf = (\<lambda>f. 0),
      sustainabilityOf = (\<lambda>f. 0)\<rparr>"
  let ?profile = "\<lparr>ph = 5.5, skinType = Dry, temperatureC = 36.5\<rparr>"
  let ?target = "\<lparr>valence = 0.3, arousal = 0.2, prompt = None\<rparr>"
  have draft: "adjustedDraft ?c ?profile ?target = [(?amber, 50), (?rose, 35)]"
    by (simp add: adjustedDraft_def)
  from generateFormula_validated [of ?c ?profile ?target] draft
  obtain formula result where g: "generateFormula ?c ?profile ?target = Some (formula, result)"
    by (cases "generateFormula ?c ?profile ?target") auto
  from generateFormula_validated [of ?c ?profile ?target] g
  have val: "validate ?t (adjustedDraft ?c ?profile ?target) = (entries formula, result)"
    and score: "complianceScore (formula_metrics formula) =
          1 - real (length (violations result)) / real (length (entries formula))"
    by simp_all
  have "validate ?t [(?amber, 50), (?rose, 35)] =
          ([(?amber, 40), (?rose, 35)],
           \<lparr>valid = False,
            violations = [\<lparr>ingredient = ''amber'', limitPct = 40, observedPct = 50,
                           category = ''leave-on''\<rparr>]\<rparr>)"
    by (simp add: validate_def maxPasses_def numeral_3_eq_3 redistributePass_def removedMass_def
          canReceive_def ceilingOf_def violationOf_def Let_def)
  with val draft have e: "entries formula = [(?amber, 40), (?rose, 35)]"
    and r: "result = \<lparr>valid = False,
            violations = [\<lparr>ingredient = ''amber'', limitPct = 40, observedPct = 50,
                           category = ''leave-on''\<rparr>]\<rparr>"
    by simp_all
  from score e r have half: "complianceScore (formula_metrics formula) = 1 / 2"
    by simp
  from g have rest: "fm_longevity (formula_metrics formula) = 0 \<and>
      fm_projection (formula_metrics formula) = 0 \<and>
      fm_uniqueness (formula_metrics formula) = 0 \<and>
      fm_sustainability (formula_metrics formula) = 0"
    by (auto simp add: generateFormula_def split: prod.splits if_splits)
  from e half rest have "formula =
      \<lparr>entries = [(?amber, 40), (?rose, 35)],
       formula_metrics =
          \<lparr>fm_longevity = 0, fm_projection = 0, fm_uniqueness = 0, fm_sustainability = 0,
           complianceScore = 1 / 2\<rparr>\<rparr>"
    by (cases formula; cases "formula_metrics formula") simp
  with g r show ?thesis by simp
qed


end
